theory Spec2Isabelle
  imports Main "HOL-Library.Sublist"
begin

section \<open>Data model of \<open>otel-lib/pkg/otel.go\<close>\<close>

subsection \<open>Attributes\<close>

text \<open>
  \<open>attribute.KeyValue\<close> is a key with a typed value. The source only builds string
  values (\<open>attribute.String\<close>, \<open>Key.String\<close>); the other primitive kinds are kept so
  that caller-supplied attributes range over what the type admits.
\<close>

datatype attr_value = StringValue string | BoolValue bool | Int64Value int

datatype KeyValue = KeyValue (Key: string) (Value: attr_value)

definition attribute_String :: "string \<Rightarrow> string \<Rightarrow> KeyValue" where
  "attribute_String k v = KeyValue k (StringValue v)"

text \<open>\<open>semconv.ServiceNameKey\<close> and \<open>semconv.ServiceVersionKey\<close> of semconv v1.12.0.\<close>

definition ServiceNameKey :: string where
  "ServiceNameKey = ''service.name''"

definition ServiceVersionKey :: string where
  "ServiceVersionKey = ''service.version''"

text \<open>The method \<open>Key.String(v)\<close>.\<close>

definition Key_String :: "string \<Rightarrow> string \<Rightarrow> KeyValue" where
  "Key_String k v = KeyValue k (StringValue v)"

subsection \<open>Configuration\<close>

text \<open>
  \<open>sdktrace.Sampler\<close> is an interface; \<open>AlwaysSample\<close> is the one implementation the
  source names, any other one is identified by a tag.
\<close>

datatype Sampler = AlwaysSample | OtherSampler nat

text \<open>\<open>time.Duration\<close> is a count of nanoseconds.\<close>

definition Second :: int where
  "Second = 1000000000"

record Config =
  ServiceName :: string
  ServiceVersion :: string
  Environment :: string
  OtelEndpoint :: string
  Attributes :: "KeyValue list"
  Sampler :: Sampler
  Timeout :: int

definition DefaultConfig :: Config where
  "DefaultConfig =
     \<lparr> ServiceName = ''unknown-service'',
       ServiceVersion = ''0.0.1'',
       Environment = ''development'',
       OtelEndpoint = ''localhost:4317'',
       Attributes = [],
       Sampler = AlwaysSample,
       Timeout = 5 * Second \<rparr>"

subsection \<open>Errors\<close>

text \<open>
  A Go \<open>error\<close> is either a plain error carrying its message or the value built by
  \<open>fmt.Errorf\<close> with a \<open>%w\<close> verb, which stores the formatted message together with
  the wrapped cause.
\<close>

datatype error = ErrorString string | WrapError string error

fun Error :: "error \<Rightarrow> string" where
  "Error (ErrorString m) = m"
| "Error (WrapError m e) = m"

fun Unwrap :: "error \<Rightarrow> error option" where
  "Unwrap (ErrorString m) = None"
| "Unwrap (WrapError m e) = Some e"

text \<open>\<open>fmt.Errorf(msg + "%w", err)\<close>: the format string ends in the one verb.\<close>

definition fmt_Errorf_w :: "string \<Rightarrow> error \<Rightarrow> error" where
  "fmt_Errorf_w msg err = WrapError (msg @ Error err) err"

text \<open>A method called through a nil pointer panics.\<close>

datatype panic = NilPointerDereference

subsection \<open>The tracing SDK as seen from the source\<close>

text \<open>
  \<open>context.Context\<close> values as the two source files build them; \<open>ContextWithSpan\<close> is
  the context a tracer's \<open>Start\<close> returns, carrying the new span.
\<close>

datatype Context =
    Background
  | WithCancel Context
  | WithTimeout Context int
  | ContextWithSpan Context nat

text \<open>The option values the source passes to the SDK constructors.\<close>

datatype resource_option =
    WithAttributes "KeyValue list"
  | WithProcessRuntimeDescription
  | WithTelemetrySDK

datatype dial_option = WithBlock

datatype client_option =
    WithInsecure
  | WithEndpoint string
  | WithDialOption dial_option

datatype client = NewClient "client_option list"

datatype 'exp span_processor = NewBatchSpanProcessor 'exp

datatype ('res, 'exp) tracer_provider_option =
    WithSampler Sampler
  | WithResource 'res
  | WithSpanProcessor "'exp span_processor"

datatype ('res, 'exp) TracerProvider =
  NewTracerProvider "('res, 'exp) tracer_provider_option list"

datatype propagator =
    TraceContext
  | Baggage
  | NewCompositeTextMapPropagator "propagator list"

text \<open>
  The two fallible constructors of the SDK are not part of the repository: they are
  parameters. \<open>resource.New\<close> yields a resource descriptor \<open>'res\<close> or an error,
  \<open>otlptrace.New\<close> an exporter \<open>'exp\<close> or an error; the source tests only
  \<open>err != nil\<close>.
\<close>

record ('res, 'exp) sdk =
  resource_New :: "Context \<Rightarrow> resource_option list \<Rightarrow> error + 'res"
  otlptrace_New :: "Context \<Rightarrow> client \<Rightarrow> error + 'exp"

text \<open>An invocation of one of the two constructors, with the arguments it was given.\<close>

datatype sdk_call =
    ResourceNew Context "resource_option list"
  | OtlptraceNew Context client

subsection \<open>Process-wide state\<close>

text \<open>
  The two globals of package \<open>otel\<close> that the source writes; \<open>None\<close> is the SDK's
  no-op default, nothing installed yet. Every other piece of global state of the
  process is the record's extension.
\<close>

record ('res, 'exp) globals =
  globalTracerProvider :: "('res, 'exp) TracerProvider option"
  globalTextMapPropagator :: "propagator option"

definition otel_SetTracerProvider ::
  "('res, 'exp) TracerProvider \<Rightarrow> ('res, 'exp, 'a) globals_scheme
     \<Rightarrow> ('res, 'exp, 'a) globals_scheme" where
  "otel_SetTracerProvider tp g = g\<lparr>globalTracerProvider := Some tp\<rparr>"

definition otel_SetTextMapPropagator ::
  "propagator \<Rightarrow> ('res, 'exp, 'a) globals_scheme \<Rightarrow> ('res, 'exp, 'a) globals_scheme" where
  "otel_SetTextMapPropagator p g = g\<lparr>globalTextMapPropagator := Some p\<rparr>"

subsection \<open>Provider\<close>

text \<open>
  \<open>tracerProvider\<close> is a pointer field: \<open>None\<close> is nil (the zero value of the struct).
  A \<open>*Provider\<close> is a \<open>Provider option\<close>.
\<close>

record ('res, 'exp) Provider =
  tracerProvider :: "('res, 'exp) TracerProvider option"
  config :: Config

text \<open>
  The methods of \<open>*sdktrace.TracerProvider\<close> that the source calls are not part of the
  repository either: they are parameters. A tracer provider is an object the SDK
  changes as it goes (\<open>Shutdown\<close> does), so both methods read and return the state
  \<open>'st\<close> the SDK keeps; \<open>'tr\<close> is what \<open>trace.Tracer\<close> values are. \<open>Tracer\<close> has no
  error result; \<open>Shutdown\<close> returns one.
\<close>

record ('res, 'exp, 'tr, 'st) tracing =
  TracerProvider_Tracer :: "('res, 'exp) TracerProvider \<Rightarrow> string \<Rightarrow> 'st \<Rightarrow> 'tr \<times> 'st"
  TracerProvider_Shutdown ::
    "('res, 'exp) TracerProvider \<Rightarrow> Context \<Rightarrow> 'st \<Rightarrow> error option \<times> 'st"

fun Shutdown ::
  "('res, 'exp, 'tr, 'st) tracing \<Rightarrow> ('res, 'exp) Provider option \<Rightarrow> Context \<Rightarrow> 'st
     \<Rightarrow> panic + (error option \<times> 'st)" where
  "Shutdown ts None ctx st = Inl NilPointerDereference"
| "Shutdown ts (Some p) ctx st =
     (case tracerProvider p of
        None \<Rightarrow> Inl NilPointerDereference
      | Some tp \<Rightarrow> Inr (TracerProvider_Shutdown ts tp ctx st))"

fun GetTracer ::
  "('res, 'exp, 'tr, 'st) tracing \<Rightarrow> ('res, 'exp) Provider option \<Rightarrow> string \<Rightarrow> 'st
     \<Rightarrow> panic + ('tr \<times> 'st)" where
  "GetTracer ts None name st = Inl NilPointerDereference"
| "GetTracer ts (Some p) name st =
     (case tracerProvider p of
        None \<Rightarrow> Inl NilPointerDereference
      | Some tp \<Rightarrow> Inr (TracerProvider_Tracer ts tp name st))"

fun GetTracerProvider ::
  "('res, 'exp) Provider option \<Rightarrow> panic + ('res, 'exp) TracerProvider option" where
  "GetTracerProvider None = Inl NilPointerDereference"
| "GetTracerProvider (Some p) = Inr (tracerProvider p)"

section \<open>InitProvider\<close>

text \<open>
  What one call of \<open>InitProvider\<close> produces: the returned pair \<open>(*Provider, error)\<close>,
  the globals after the call, and the SDK constructor calls it made, in order.
\<close>

record ('res, 'exp, 'g) outcome =
  ret_provider :: "('res, 'exp) Provider option"
  ret_error :: "error option"
  globals_after :: 'g
  calls_made :: "sdk_call list"

definition InitProvider ::
  "('res, 'exp) sdk \<Rightarrow> Context \<Rightarrow> Config \<Rightarrow> ('res, 'exp, 'a) globals_scheme
     \<Rightarrow> ('res, 'exp, ('res, 'exp, 'a) globals_scheme) outcome" where
  "InitProvider s ctx cfg g =
     (let attrs = [Key_String ServiceNameKey (ServiceName cfg),
                   Key_String ServiceVersionKey (ServiceVersion cfg),
                   attribute_String ''environment'' (Environment cfg)];
          attrs = attrs @ Attributes cfg;
          resource_opts = [WithAttributes attrs, WithProcessRuntimeDescription, WithTelemetrySDK]
      in case resource_New s ctx resource_opts of
           Inl err \<Rightarrow>
             \<lparr> ret_provider = None,
               ret_error = Some (fmt_Errorf_w ''failed to create resource: '' err),
               globals_after = g,
               calls_made = [ResourceNew ctx resource_opts] \<rparr>
         | Inr res \<Rightarrow>
             (let secureOption = WithInsecure;
                  cl = NewClient [secureOption,
                                  WithEndpoint (OtelEndpoint cfg),
                                  WithDialOption WithBlock]
              in case otlptrace_New s ctx cl of
                   Inl err \<Rightarrow>
                     \<lparr> ret_provider = None,
                       ret_error = Some (fmt_Errorf_w ''failed to create trace exporter: '' err),
                       globals_after = g,
                       calls_made = [ResourceNew ctx resource_opts, OtlptraceNew ctx cl] \<rparr>
                 | Inr traceExporter \<Rightarrow>
                     (let bsp = NewBatchSpanProcessor traceExporter;
                          tp = NewTracerProvider
                                 [WithSampler (Sampler cfg), WithResource res, WithSpanProcessor bsp];
                          g1 = otel_SetTracerProvider tp g;
                          g2 = otel_SetTextMapPropagator
                                 (NewCompositeTextMapPropagator [TraceContext, Baggage]) g1
                      in \<lparr> ret_provider = Some \<lparr>tracerProvider = Some tp, config = cfg\<rparr>,
                           ret_error = None,
                           globals_after = g2,
                           calls_made = [ResourceNew ctx resource_opts, OtlptraceNew ctx cl] \<rparr>)))"

text \<open>
  The two construction stages as \<open>InitProvider\<close> invokes them: the call of
  \<open>resource.New\<close> (lines 75 to 79) and the call of \<open>otlptrace.New\<close> (lines 86 to 93).
\<close>

definition resource_stage :: "('res, 'exp) sdk \<Rightarrow> Context \<Rightarrow> Config \<Rightarrow> error + 'res" where
  "resource_stage s ctx cfg =
     resource_New s ctx
       [WithAttributes
          ([Key_String ServiceNameKey (ServiceName cfg),
            Key_String ServiceVersionKey (ServiceVersion cfg),
            attribute_String ''environment'' (Environment cfg)] @ Attributes cfg),
        WithProcessRuntimeDescription, WithTelemetrySDK]"

definition exporter_stage :: "('res, 'exp) sdk \<Rightarrow> Context \<Rightarrow> Config \<Rightarrow> error + 'exp" where
  "exporter_stage s ctx cfg =
     otlptrace_New s ctx
       (NewClient [WithInsecure, WithEndpoint (OtelEndpoint cfg), WithDialOption WithBlock])"

section \<open>The middleware shim\<close>

record 'tr TracerMiddleware =
  Tracer :: 'tr

definition NewTracerMiddleware ::
  "('res, 'exp, 'tr, 'st) tracing \<Rightarrow> ('res, 'exp) Provider option \<Rightarrow> string \<Rightarrow> 'st
     \<Rightarrow> panic + ('tr TracerMiddleware \<times> 'st)" where
  "NewTracerMiddleware ts provider tracerName st =
     (case GetTracer ts provider tracerName st of
        Inl p \<Rightarrow> Inl p
      | Inr (t, st') \<Rightarrow> Inr (\<lparr>Tracer = t\<rparr>, st'))"

text \<open>
  The methods \<open>otel.go\<close> declares, by receiver type. \<open>*TracerMiddleware\<close> has none: the
  \<open>Handle\<close> of lines 137 to 154 stands inside a comment.
\<close>

datatype receiver = Provider_ptr | TracerMiddleware_ptr

fun method_set :: "receiver \<Rightarrow> string list" where
  "method_set Provider_ptr = [''Shutdown'', ''GetTracer'', ''GetTracerProvider'']"
| "method_set TracerMiddleware_ptr = []"

section \<open>Concrete inputs\<close>

text \<open>
  Three instances of the SDK parameter. In \<open>echo_sdk\<close> both constructors succeed: the
  resource descriptor is the option list it was built from and the exporter is its
  client. In \<open>unreachable_sdk\<close> the exporter cannot be built, in \<open>bad_resource_sdk\<close>
  the resource descriptor cannot.
\<close>

definition echo_sdk :: "(resource_option list, client) sdk" where
  "echo_sdk = \<lparr> resource_New = (\<lambda>ctx opts. Inr opts), otlptrace_New = (\<lambda>ctx c. Inr c) \<rparr>"

definition unreachable_sdk :: "(resource_option list, client) sdk" where
  "unreachable_sdk =
     \<lparr> resource_New = (\<lambda>ctx opts. Inr opts),
       otlptrace_New = (\<lambda>ctx c. Inl (ErrorString ''context deadline exceeded'')) \<rparr>"

definition bad_resource_sdk :: "(resource_option list, client) sdk" where
  "bad_resource_sdk =
     \<lparr> resource_New = (\<lambda>ctx opts. Inl (ErrorString ''invalid attribute'')),
       otlptrace_New = (\<lambda>ctx c. Inr c) \<rparr>"

text \<open>No provider and no propagation format installed yet.\<close>

definition no_globals :: "(resource_option list, client) globals" where
  "no_globals = \<lparr> globalTracerProvider = None, globalTextMapPropagator = None \<rparr>"

text \<open>The configuration of the example program.\<close>

definition example_config :: Config where
  "example_config =
     DefaultConfig
       \<lparr> ServiceName := ''exemplo-servico'',
         ServiceVersion := ''1.0.0'',
         Environment := ''production'',
         OtelEndpoint := ''otel-collector:4317'',
         Attributes := [attribute_String ''deployment.region'' ''br-south''] \<rparr>"

text \<open>A caller-supplied attribute that repeats the key of a built-in one.\<close>

definition duplicate_key_config :: Config where
  "duplicate_key_config =
     DefaultConfig
       \<lparr> ServiceName := ''exemplo-servico'',
         Attributes := [attribute_String ''service.name'' ''outro-nome'',
                        attribute_String ''deployment.region'' ''br-south''] \<rparr>"

text \<open>The default configuration with the service name emptied.\<close>

definition unnamed_config :: Config where
  "unnamed_config = DefaultConfig \<lparr> ServiceName := [] \<rparr>"

text \<open>The tracer provider \<open>InitProvider\<close> builds from \<open>example_config\<close> on \<open>echo_sdk\<close>.\<close>

definition example_tracer_provider :: "(resource_option list, client) TracerProvider" where
  "example_tracer_provider =
     NewTracerProvider
       [WithSampler AlwaysSample,
        WithResource
          [WithAttributes
             [KeyValue ''service.name'' (StringValue ''exemplo-servico''),
              KeyValue ''service.version'' (StringValue ''1.0.0''),
              KeyValue ''environment'' (StringValue ''production''),
              KeyValue ''deployment.region'' (StringValue ''br-south'')],
           WithProcessRuntimeDescription, WithTelemetrySDK],
        WithSpanProcessor
          (NewBatchSpanProcessor
             (NewClient [WithInsecure, WithEndpoint ''otel-collector:4317'',
                         WithDialOption WithBlock]))]"

text \<open>
  An SDK instance whose resource descriptor is an attribute set: of the attributes it
  is given, the last one of each key stays.
\<close>

fun last_wins :: "KeyValue list \<Rightarrow> KeyValue list" where
  "last_wins [] = []"
| "last_wins (kv # kvs) =
     (if Key kv \<in> Key ` set kvs then last_wins kvs else kv # last_wins kvs)"

fun option_attributes :: "resource_option \<Rightarrow> KeyValue list" where
  "option_attributes (WithAttributes kvs) = kvs"
| "option_attributes WithProcessRuntimeDescription = []"
| "option_attributes WithTelemetrySDK = []"

definition last_wins_sdk :: "(KeyValue list, client) sdk" where
  "last_wins_sdk =
     \<lparr> resource_New = (\<lambda>ctx opts. Inr (last_wins (concat (map option_attributes opts)))),
       otlptrace_New = (\<lambda>ctx c. Inr c) \<rparr>"

text \<open>
  An instance of the tracer provider's methods that keeps the list of the providers
  shut down so far. Before \<open>Shutdown\<close> a provider hands out a tracer that records the
  spans it starts; after it, a tracer that records nothing.
\<close>

datatype ('res, 'exp) sdk_tracer =
    RecordingTracer "('res, 'exp) TracerProvider" string
  | NoopTracer

fun records_spans :: "('res, 'exp) sdk_tracer \<Rightarrow> bool" where
  "records_spans (RecordingTracer tp name) = True"
| "records_spans NoopTracer = False"

definition stateful_tracing ::
  "('res, 'exp, ('res, 'exp) sdk_tracer, ('res, 'exp) TracerProvider list) tracing" where
  "stateful_tracing =
     \<lparr> TracerProvider_Tracer =
         (\<lambda>tp name st. (if tp \<in> set st then NoopTracer else RecordingTracer tp name, st)),
       TracerProvider_Shutdown = (\<lambda>tp ctx st. (None, tp # st)) \<rparr>"

section \<open>What one call of InitProvider does\<close>

text \<open>The three ways through \<open>InitProvider\<close>, each as one equation.\<close>

lemma InitProvider_resource_failure:
  "resource_stage s ctx cfg = Inl err \<Longrightarrow>
     InitProvider s ctx cfg g =
       \<lparr> ret_provider = None,
         ret_error = Some (fmt_Errorf_w ''failed to create resource: '' err),
         globals_after = g,
         calls_made =
           [ResourceNew ctx
              [WithAttributes
                 ([Key_String ServiceNameKey (ServiceName cfg),
                   Key_String ServiceVersionKey (ServiceVersion cfg),
                   attribute_String ''environment'' (Environment cfg)] @ Attributes cfg),
               WithProcessRuntimeDescription, WithTelemetrySDK]] \<rparr>"
  by (simp add: InitProvider_def resource_stage_def Let_def)

lemma InitProvider_exporter_failure:
  "resource_stage s ctx cfg = Inr res \<Longrightarrow> exporter_stage s ctx cfg = Inl err \<Longrightarrow>
     InitProvider s ctx cfg g =
       \<lparr> ret_provider = None,
         ret_error = Some (fmt_Errorf_w ''failed to create trace exporter: '' err),
         globals_after = g,
         calls_made =
           [ResourceNew ctx
              [WithAttributes
                 ([Key_String ServiceNameKey (ServiceName cfg),
                   Key_String ServiceVersionKey (ServiceVersion cfg),
                   attribute_String ''environment'' (Environment cfg)] @ Attributes cfg),
               WithProcessRuntimeDescription, WithTelemetrySDK],
            OtlptraceNew ctx
              (NewClient [WithInsecure, WithEndpoint (OtelEndpoint cfg), WithDialOption WithBlock])] \<rparr>"
  by (simp add: InitProvider_def resource_stage_def exporter_stage_def Let_def)

lemma InitProvider_success:
  "resource_stage s ctx cfg = Inr res \<Longrightarrow> exporter_stage s ctx cfg = Inr ex \<Longrightarrow>
     InitProvider s ctx cfg g =
       \<lparr> ret_provider =
           Some \<lparr>tracerProvider =
                   Some (NewTracerProvider
                           [WithSampler (Sampler cfg), WithResource res,
                            WithSpanProcessor (NewBatchSpanProcessor ex)]),
                 config = cfg\<rparr>,
         ret_error = None,
         globals_after =
           g\<lparr>globalTracerProvider :=
                Some (NewTracerProvider
                        [WithSampler (Sampler cfg), WithResource res,
                         WithSpanProcessor (NewBatchSpanProcessor ex)]),
             globalTextMapPropagator :=
                Some (NewCompositeTextMapPropagator [TraceContext, Baggage])\<rparr>,
         calls_made =
           [ResourceNew ctx
              [WithAttributes
                 ([Key_String ServiceNameKey (ServiceName cfg),
                   Key_String ServiceVersionKey (ServiceVersion cfg),
                   attribute_String ''environment'' (Environment cfg)] @ Attributes cfg),
               WithProcessRuntimeDescription, WithTelemetrySDK],
            OtlptraceNew ctx
              (NewClient [WithInsecure, WithEndpoint (OtelEndpoint cfg), WithDialOption WithBlock])] \<rparr>"
  by (simp add: InitProvider_def resource_stage_def exporter_stage_def Let_def
        otel_SetTracerProvider_def otel_SetTextMapPropagator_def)

lemmas InitProvider_eqs =
  InitProvider_resource_failure InitProvider_exporter_failure InitProvider_success

lemma echo_stages:
  "resource_stage echo_sdk ctx cfg =
     Inr [WithAttributes
            ([Key_String ServiceNameKey (ServiceName cfg),
              Key_String ServiceVersionKey (ServiceVersion cfg),
              attribute_String ''environment'' (Environment cfg)] @ Attributes cfg),
          WithProcessRuntimeDescription, WithTelemetrySDK]"
  "exporter_stage echo_sdk ctx cfg =
     Inr (NewClient [WithInsecure, WithEndpoint (OtelEndpoint cfg), WithDialOption WithBlock])"
  by (simp_all add: echo_sdk_def resource_stage_def exporter_stage_def)

lemma unreachable_stages:
  "resource_stage unreachable_sdk ctx cfg =
     Inr [WithAttributes
            ([Key_String ServiceNameKey (ServiceName cfg),
              Key_String ServiceVersionKey (ServiceVersion cfg),
              attribute_String ''environment'' (Environment cfg)] @ Attributes cfg),
          WithProcessRuntimeDescription, WithTelemetrySDK]"
  "exporter_stage unreachable_sdk ctx cfg = Inl (ErrorString ''context deadline exceeded'')"
  by (simp_all add: unreachable_sdk_def resource_stage_def exporter_stage_def)

lemma bad_resource_stages:
  "resource_stage bad_resource_sdk ctx cfg = Inl (ErrorString ''invalid attribute'')"
  "exporter_stage bad_resource_sdk ctx cfg =
     Inr (NewClient [WithInsecure, WithEndpoint (OtelEndpoint cfg), WithDialOption WithBlock])"
  by (simp_all add: bad_resource_sdk_def resource_stage_def exporter_stage_def)

lemma example_provider:
  "ret_provider (InitProvider echo_sdk Background example_config no_globals) =
     Some \<lparr> tracerProvider = Some example_tracer_provider, config = example_config \<rparr>"
  by (simp add: InitProvider_success [OF echo_stages] example_config_def DefaultConfig_def
        Key_String_def attribute_String_def ServiceNameKey_def ServiceVersionKey_def
        example_tracer_provider_def)

section \<open>Failure leaves the globals alone\<close>

text \<open>
  C1. If the resource stage or the exporter stage fails, \<open>InitProvider\<close> returns a nil
  provider together with an error and the globals are what they were before the call:
  neither a tracer provider nor a propagation format has been installed. A provider
  is returned exactly when both stages succeed, and then without an error.
\<close>

theorem InitProvider_failure_atomic:
  "(isl (resource_stage s ctx cfg) \<or> isl (exporter_stage s ctx cfg) \<longrightarrow>
      ret_provider (InitProvider s ctx cfg g) = None \<and>
      ret_error (InitProvider s ctx cfg g) \<noteq> None \<and>
      globals_after (InitProvider s ctx cfg g) = g)
   \<and> (ret_provider (InitProvider s ctx cfg g) \<noteq> None \<longleftrightarrow>
        \<not> isl (resource_stage s ctx cfg) \<and> \<not> isl (exporter_stage s ctx cfg))
   \<and> (ret_provider (InitProvider s ctx cfg g) \<noteq> None \<longrightarrow>
        ret_error (InitProvider s ctx cfg g) = None)"
  by (cases "resource_stage s ctx cfg"; cases "exporter_stage s ctx cfg")
     (simp_all add: InitProvider_eqs)

theorem InitProvider_failure_atomic_witness:
  "isl (resource_stage bad_resource_sdk Background example_config)
   \<and> ret_provider (InitProvider bad_resource_sdk Background example_config no_globals) = None
   \<and> ret_error (InitProvider bad_resource_sdk Background example_config no_globals) \<noteq> None
   \<and> globals_after (InitProvider bad_resource_sdk Background example_config no_globals) = no_globals
   \<and> isl (exporter_stage unreachable_sdk Background example_config)
   \<and> ret_provider (InitProvider unreachable_sdk Background example_config no_globals) = None
   \<and> globals_after (InitProvider unreachable_sdk Background example_config no_globals) = no_globals
   \<and> ret_provider (InitProvider echo_sdk Background example_config no_globals) \<noteq> None
   \<and> ret_error (InitProvider echo_sdk Background example_config no_globals) = None"
  using InitProvider_failure_atomic [of bad_resource_sdk Background example_config no_globals]
        InitProvider_failure_atomic [of unreachable_sdk Background example_config no_globals]
        InitProvider_failure_atomic [of echo_sdk Background example_config no_globals]
  by (simp add: echo_stages unreachable_stages bad_resource_stages)

section \<open>The resource attributes\<close>

text \<open>
  C3, as stated, fails: on an SDK whose resource descriptor keeps the last attribute of
  each key, a configuration that supplies an attribute with the key \<open>service.name\<close>
  yields a provider whose resource does not carry the configured service name.
\<close>

theorem resource_descriptor_counterexample:
  "ServiceName duplicate_key_config = ''exemplo-servico''
   \<and> ret_provider
       (InitProvider last_wins_sdk Background duplicate_key_config
          \<lparr> globalTracerProvider = None, globalTextMapPropagator = None \<rparr>) =
       Some \<lparr> tracerProvider =
                Some (NewTracerProvider
                        [WithSampler AlwaysSample,
                         WithResource
                           [KeyValue ''service.version'' (StringValue ''0.0.1''),
                            KeyValue ''environment'' (StringValue ''development''),
                            KeyValue ''service.name'' (StringValue ''outro-nome''),
                            KeyValue ''deployment.region'' (StringValue ''br-south'')],
                         WithSpanProcessor
                           (NewBatchSpanProcessor
                              (NewClient [WithInsecure, WithEndpoint ''localhost:4317'',
                                          WithDialOption WithBlock]))]),
              config = duplicate_key_config \<rparr>
   \<and> KeyValue ''service.name'' (StringValue ''exemplo-servico'')
       \<notin> set [KeyValue ''service.version'' (StringValue ''0.0.1''),
               KeyValue ''environment'' (StringValue ''development''),
               KeyValue ''service.name'' (StringValue ''outro-nome''),
               KeyValue ''deployment.region'' (StringValue ''br-south'')]"
proof -
  have r: "resource_stage last_wins_sdk Background duplicate_key_config =
             Inr [KeyValue ''service.version'' (StringValue ''0.0.1''),
                  KeyValue ''environment'' (StringValue ''development''),
                  KeyValue ''service.name'' (StringValue ''outro-nome''),
                  KeyValue ''deployment.region'' (StringValue ''br-south'')]"
    by (simp add: resource_stage_def last_wins_sdk_def duplicate_key_config_def
          DefaultConfig_def Key_String_def attribute_String_def ServiceNameKey_def
          ServiceVersionKey_def)
  have e: "exporter_stage last_wins_sdk Background duplicate_key_config =
             Inr (NewClient [WithInsecure, WithEndpoint ''localhost:4317'',
                             WithDialOption WithBlock])"
    by (simp add: exporter_stage_def last_wins_sdk_def duplicate_key_config_def
          DefaultConfig_def)
  show ?thesis
    by (simp add: InitProvider_success [OF r e])
       (simp add: duplicate_key_config_def DefaultConfig_def)
qed

text \<open>
  C3, amended. The first SDK call of \<open>InitProvider\<close> is \<open>resource.New\<close>, and the attribute
  list it is given contains the service-name and service-version attributes of the
  configuration, the environment attribute, and every attribute of the configuration's
  \<open>Attributes\<close>. When a provider is returned, its resource descriptor is what that call
  produced from the list.
\<close>

theorem InitProvider_resource_attributes:
  "\<exists>attrs rest.
      calls_made (InitProvider s ctx cfg g) =
        ResourceNew ctx [WithAttributes attrs, WithProcessRuntimeDescription, WithTelemetrySDK] # rest
      \<and> KeyValue ''service.name'' (StringValue (ServiceName cfg)) \<in> set attrs
      \<and> KeyValue ''service.version'' (StringValue (ServiceVersion cfg)) \<in> set attrs
      \<and> KeyValue ''environment'' (StringValue (Environment cfg)) \<in> set attrs
      \<and> set (Attributes cfg) \<subseteq> set attrs
      \<and> (\<forall>p. ret_provider (InitProvider s ctx cfg g) = Some p \<longrightarrow>
            (\<exists>res ex.
               resource_New s ctx
                 [WithAttributes attrs, WithProcessRuntimeDescription, WithTelemetrySDK] = Inr res
               \<and> tracerProvider p =
                   Some (NewTracerProvider
                           [WithSampler (Sampler cfg), WithResource res,
                            WithSpanProcessor (NewBatchSpanProcessor ex)])))"
  by (cases "resource_stage s ctx cfg"; cases "exporter_stage s ctx cfg")
     (auto simp add: InitProvider_eqs Key_String_def attribute_String_def ServiceNameKey_def
        ServiceVersionKey_def resource_stage_def)

theorem InitProvider_resource_attributes_witness:
  "ret_provider (InitProvider echo_sdk Background example_config no_globals) =
     Some \<lparr> tracerProvider =
              Some (NewTracerProvider
                      [WithSampler AlwaysSample,
                       WithResource
                         [WithAttributes
                            [KeyValue ''service.name'' (StringValue ''exemplo-servico''),
                             KeyValue ''service.version'' (StringValue ''1.0.0''),
                             KeyValue ''environment'' (StringValue ''production''),
                             KeyValue ''deployment.region'' (StringValue ''br-south'')],
                          WithProcessRuntimeDescription, WithTelemetrySDK],
                       WithSpanProcessor
                         (NewBatchSpanProcessor
                            (NewClient [WithInsecure, WithEndpoint ''otel-collector:4317'',
                                        WithDialOption WithBlock]))]),
            config = example_config \<rparr>
   \<and> (\<exists>attrs rest.
        calls_made (InitProvider echo_sdk Background example_config no_globals) =
          ResourceNew Background
            [WithAttributes attrs, WithProcessRuntimeDescription, WithTelemetrySDK] # rest
        \<and> KeyValue ''service.name'' (StringValue ''exemplo-servico'') \<in> set attrs
        \<and> KeyValue ''deployment.region'' (StringValue ''br-south'') \<in> set attrs)"
proof -
  have p: "ret_provider (InitProvider echo_sdk Background example_config no_globals) =
     Some \<lparr> tracerProvider =
              Some (NewTracerProvider
                      [WithSampler AlwaysSample,
                       WithResource
                         [WithAttributes
                            [KeyValue ''service.name'' (StringValue ''exemplo-servico''),
                             KeyValue ''service.version'' (StringValue ''1.0.0''),
                             KeyValue ''environment'' (StringValue ''production''),
                             KeyValue ''deployment.region'' (StringValue ''br-south'')],
                          WithProcessRuntimeDescription, WithTelemetrySDK],
                       WithSpanProcessor
                         (NewBatchSpanProcessor
                            (NewClient [WithInsecure, WithEndpoint ''otel-collector:4317'',
                                        WithDialOption WithBlock]))]),
            config = example_config \<rparr>"
    by (simp add: InitProvider_success [OF echo_stages] example_config_def DefaultConfig_def
          Key_String_def attribute_String_def ServiceNameKey_def ServiceVersionKey_def)
  from InitProvider_resource_attributes [of echo_sdk Background example_config no_globals]
  obtain attrs rest where
    c: "calls_made (InitProvider echo_sdk Background example_config no_globals) =
          ResourceNew Background
            [WithAttributes attrs, WithProcessRuntimeDescription, WithTelemetrySDK] # rest"
    and n: "KeyValue ''service.name'' (StringValue (ServiceName example_config)) \<in> set attrs"
    and a: "set (Attributes example_config) \<subseteq> set attrs"
    by blast
  have "KeyValue ''service.name'' (StringValue ''exemplo-servico'') \<in> set attrs"
    using n by (simp add: example_config_def)
  moreover have "KeyValue ''deployment.region'' (StringValue ''br-south'') \<in> set attrs"
    using a by (simp add: example_config_def attribute_String_def)
  ultimately show ?thesis using p c by blast
qed

text \<open>
  C10. In the attribute list handed to \<open>resource.New\<close> the three built-in attributes
  take the positions 0, 1 and 2, in the order service name, service version,
  environment; the caller-supplied attributes follow from position 3 on in their
  original order. So a caller-supplied attribute whose key repeats a built-in one
  stands after it.
\<close>

theorem InitProvider_attribute_order:
  "\<exists>attrs rest.
      calls_made (InitProvider s ctx cfg g) =
        ResourceNew ctx [WithAttributes attrs, WithProcessRuntimeDescription, WithTelemetrySDK] # rest
      \<and> take 3 attrs =
          [KeyValue ''service.name'' (StringValue (ServiceName cfg)),
           KeyValue ''service.version'' (StringValue (ServiceVersion cfg)),
           KeyValue ''environment'' (StringValue (Environment cfg))]
      \<and> drop 3 attrs = Attributes cfg
      \<and> (\<forall>j < length (Attributes cfg). attrs ! (3 + j) = Attributes cfg ! j)
      \<and> (\<forall>j < length (Attributes cfg). \<forall>i < 3.
            Key (attrs ! (3 + j)) = Key (attrs ! i) \<longrightarrow> i < 3 + j)"
  by (cases "resource_stage s ctx cfg"; cases "exporter_stage s ctx cfg")
     (auto simp add: InitProvider_eqs Key_String_def attribute_String_def ServiceNameKey_def
        ServiceVersionKey_def nth_Cons')

theorem InitProvider_attribute_order_witness:
  "\<exists>attrs rest.
      calls_made (InitProvider echo_sdk Background duplicate_key_config no_globals) =
        ResourceNew Background
          [WithAttributes attrs, WithProcessRuntimeDescription, WithTelemetrySDK] # rest
      \<and> 0 < length (Attributes duplicate_key_config)
      \<and> attrs ! 0 = KeyValue ''service.name'' (StringValue ''exemplo-servico'')
      \<and> attrs ! 3 = KeyValue ''service.name'' (StringValue ''outro-nome'')
      \<and> attrs ! 4 = KeyValue ''deployment.region'' (StringValue ''br-south'')"
proof -
  from InitProvider_attribute_order [of echo_sdk Background duplicate_key_config no_globals]
  obtain attrs rest where
    c: "calls_made (InitProvider echo_sdk Background duplicate_key_config no_globals) =
          ResourceNew Background
            [WithAttributes attrs, WithProcessRuntimeDescription, WithTelemetrySDK] # rest"
    and t: "take 3 attrs =
          [KeyValue ''service.name'' (StringValue (ServiceName duplicate_key_config)),
           KeyValue ''service.version'' (StringValue (ServiceVersion duplicate_key_config)),
           KeyValue ''environment'' (StringValue (Environment duplicate_key_config))]"
    and n: "\<forall>j < length (Attributes duplicate_key_config).
              attrs ! (3 + j) = Attributes duplicate_key_config ! j"
    by blast
  have l: "length (Attributes duplicate_key_config) = 2"
    by (simp add: duplicate_key_config_def)
  have "attrs ! 0 = take 3 attrs ! 0" by simp
  then have a0: "attrs ! 0 = KeyValue ''service.name'' (StringValue ''exemplo-servico'')"
    by (simp add: t duplicate_key_config_def)
  have "attrs ! (3 + 0) = Attributes duplicate_key_config ! 0"
    using n [rule_format, of 0] l by simp
  then have a3: "attrs ! 3 = KeyValue ''service.name'' (StringValue ''outro-nome'')"
    by (simp add: duplicate_key_config_def attribute_String_def)
  have "attrs ! (3 + 1) = Attributes duplicate_key_config ! 1"
    using n [rule_format, of 1] l by simp
  then have a4: "attrs ! 4 = KeyValue ''deployment.region'' (StringValue ''br-south'')"
    by (simp add: duplicate_key_config_def attribute_String_def)
  show ?thesis using c l a0 a3 a4 by auto
qed

section \<open>The globals after a successful call\<close>

text \<open>
  C4. When \<open>InitProvider\<close> returns no error, the globals after the call are the globals
  before it with two fields rewritten: the tracer provider is the one held by the
  returned \<open>Provider\<close>, and the propagation format is the composite of trace-context
  and baggage. Every other part of the global state is as before.
\<close>

theorem InitProvider_installs_two_globals:
  assumes "ret_error (InitProvider s ctx cfg g) = None"
  shows "\<exists>tp. ret_provider (InitProvider s ctx cfg g) = Some \<lparr>tracerProvider = Some tp, config = cfg\<rparr>
           \<and> globals_after (InitProvider s ctx cfg g) =
               g\<lparr> globalTracerProvider := Some tp,
                  globalTextMapPropagator :=
                    Some (NewCompositeTextMapPropagator [TraceContext, Baggage]) \<rparr>
           \<and> globals.more (globals_after (InitProvider s ctx cfg g)) = globals.more g"
  using assms
  by (cases "resource_stage s ctx cfg"; cases "exporter_stage s ctx cfg")
     (simp_all add: InitProvider_eqs)

theorem InitProvider_installs_two_globals_witness:
  "ret_error (InitProvider echo_sdk Background example_config
                (globals.extend no_globals ''meter provider'')) = None
   \<and> (\<exists>tp. globals_after (InitProvider echo_sdk Background example_config
                            (globals.extend no_globals ''meter provider'')) =
             \<lparr> globalTracerProvider = Some tp,
               globalTextMapPropagator =
                 Some (NewCompositeTextMapPropagator [TraceContext, Baggage]),
               \<dots> = ''meter provider'' \<rparr>)"
proof -
  have e: "ret_error (InitProvider echo_sdk Background example_config
                (globals.extend no_globals ''meter provider'')) = None"
    by (simp add: InitProvider_success [OF echo_stages])
  from InitProvider_installs_two_globals [OF e] show ?thesis
    using e by (auto simp add: no_globals_def globals.extend_def)
qed

section \<open>The returned error\<close>

text \<open>
  C5. An error returned by \<open>InitProvider\<close> wraps the error of the stage that failed:
  its cause is that error, and its message is the stage's prefix followed by the
  cause's message. The message starts with the resource prefix exactly when the
  resource stage failed, and with the exporter prefix exactly when it did not.
\<close>

theorem InitProvider_error_names_stage:
  assumes "ret_error (InitProvider s ctx cfg g) = Some e"
  shows "((\<exists>err. resource_stage s ctx cfg = Inl err \<and> Unwrap e = Some err
                \<and> Error e = ''failed to create resource: '' @ Error err)
          \<or> (\<exists>res err. resource_stage s ctx cfg = Inr res \<and> exporter_stage s ctx cfg = Inl err
                \<and> Unwrap e = Some err
                \<and> Error e = ''failed to create trace exporter: '' @ Error err))
         \<and> (prefix ''failed to create resource: '' (Error e) \<longleftrightarrow> isl (resource_stage s ctx cfg))
         \<and> (prefix ''failed to create trace exporter: '' (Error e)
              \<longleftrightarrow> \<not> isl (resource_stage s ctx cfg))"
  using assms
  by (cases "resource_stage s ctx cfg"; cases "exporter_stage s ctx cfg")
     (auto simp add: InitProvider_eqs fmt_Errorf_w_def)

theorem InitProvider_error_names_stage_witness:
  "ret_error (InitProvider unreachable_sdk Background example_config no_globals) =
     Some (WrapError ''failed to create trace exporter: context deadline exceeded''
             (ErrorString ''context deadline exceeded''))
   \<and> \<not> isl (resource_stage unreachable_sdk Background example_config)
   \<and> ret_error (InitProvider bad_resource_sdk Background example_config no_globals) =
     Some (WrapError ''failed to create resource: invalid attribute''
             (ErrorString ''invalid attribute''))
   \<and> isl (resource_stage bad_resource_sdk Background example_config)"
proof -
  have u: "ret_error (InitProvider unreachable_sdk Background example_config no_globals) =
     Some (WrapError ''failed to create trace exporter: context deadline exceeded''
             (ErrorString ''context deadline exceeded''))"
    by (simp add: InitProvider_exporter_failure [OF unreachable_stages] fmt_Errorf_w_def)
  have b: "ret_error (InitProvider bad_resource_sdk Background example_config no_globals) =
     Some (WrapError ''failed to create resource: invalid attribute''
             (ErrorString ''invalid attribute''))"
    by (simp add: InitProvider_resource_failure [OF bad_resource_stages(1)] fmt_Errorf_w_def)
  from InitProvider_error_names_stage [OF u] InitProvider_error_names_stage [OF b] u b
  show ?thesis by simp
qed

section \<open>An empty service name\<close>

text \<open>
  C6, as stated, fails: on an SDK whose resource descriptor is the option list it is
  built from, the default configuration with an empty service name yields a provider
  whose resource carries the empty service name, not the placeholder.
\<close>

theorem empty_service_name_counterexample:
  "ServiceName unnamed_config = []
   \<and> ret_error (InitProvider echo_sdk Background unnamed_config no_globals) = None
   \<and> ret_provider (InitProvider echo_sdk Background unnamed_config no_globals) =
       Some \<lparr> tracerProvider =
                Some (NewTracerProvider
                        [WithSampler AlwaysSample,
                         WithResource
                           [WithAttributes
                              [KeyValue ''service.name'' (StringValue []),
                               KeyValue ''service.version'' (StringValue ''0.0.1''),
                               KeyValue ''environment'' (StringValue ''development'')],
                            WithProcessRuntimeDescription, WithTelemetrySDK],
                         WithSpanProcessor
                           (NewBatchSpanProcessor
                              (NewClient [WithInsecure, WithEndpoint ''localhost:4317'',
                                          WithDialOption WithBlock]))]),
              config = unnamed_config \<rparr>
   \<and> KeyValue ''service.name'' (StringValue ''unknown-service'')
       \<notin> set [KeyValue ''service.name'' (StringValue []),
               KeyValue ''service.version'' (StringValue ''0.0.1''),
               KeyValue ''environment'' (StringValue ''development'')]"
  by (simp add: InitProvider_success [OF echo_stages] unnamed_config_def DefaultConfig_def
        Key_String_def attribute_String_def ServiceNameKey_def ServiceVersionKey_def)

text \<open>
  C6, amended. \<open>InitProvider\<close> does not validate the service name: with an empty one it
  returns no error exactly when both SDK stages succeed, and the service-name attribute
  it hands to \<open>resource.New\<close> is the empty string. The placeholder
  \<open>unknown-service\<close> is what \<open>DefaultConfig\<close> supplies.
\<close>

theorem InitProvider_empty_service_name:
  assumes "ServiceName cfg = []"
  shows "(ret_error (InitProvider s ctx cfg g) = None \<longleftrightarrow>
            \<not> isl (resource_stage s ctx cfg) \<and> \<not> isl (exporter_stage s ctx cfg))
         \<and> (\<exists>rest. calls_made (InitProvider s ctx cfg g) =
               ResourceNew ctx
                 [WithAttributes
                    (KeyValue ''service.name'' (StringValue [])
                     # KeyValue ''service.version'' (StringValue (ServiceVersion cfg))
                     # KeyValue ''environment'' (StringValue (Environment cfg))
                     # Attributes cfg),
                  WithProcessRuntimeDescription, WithTelemetrySDK] # rest)
         \<and> ServiceName DefaultConfig = ''unknown-service''"
  using assms
  by (cases "resource_stage s ctx cfg"; cases "exporter_stage s ctx cfg")
     (simp_all add: InitProvider_eqs Key_String_def attribute_String_def ServiceNameKey_def
        ServiceVersionKey_def DefaultConfig_def)

theorem InitProvider_empty_service_name_witness:
  "ServiceName unnamed_config = []
   \<and> ret_error (InitProvider echo_sdk Background unnamed_config no_globals) = None
   \<and> (\<exists>rest. calls_made (InitProvider echo_sdk Background unnamed_config no_globals) =
         ResourceNew Background
           [WithAttributes
              [KeyValue ''service.name'' (StringValue []),
               KeyValue ''service.version'' (StringValue ''0.0.1''),
               KeyValue ''environment'' (StringValue ''development'')],
            WithProcessRuntimeDescription, WithTelemetrySDK] # rest)"
proof -
  have n: "ServiceName unnamed_config = []" by (simp add: unnamed_config_def)
  from InitProvider_empty_service_name [OF n, of echo_sdk Background no_globals] n
  show ?thesis by (simp add: echo_stages unnamed_config_def DefaultConfig_def)
qed

section \<open>The exporter's client\<close>

text \<open>
  C7. Every call of \<open>otlptrace.New\<close> that \<open>InitProvider\<close> makes is given a client whose
  options are \<open>WithInsecure\<close>, the configured endpoint and the blocking dial option, in
  this order: only the endpoint depends on the configuration. The call is made whenever
  the resource stage succeeded, and the exporter of a returned provider is the one it
  produced.
\<close>

theorem InitProvider_insecure_client:
  "(\<forall>c \<in> set (calls_made (InitProvider s ctx cfg g)). \<forall>ctx' opts.
       c = OtlptraceNew ctx' (NewClient opts) \<longrightarrow>
         opts = [WithInsecure, WithEndpoint (OtelEndpoint cfg), WithDialOption WithBlock])
   \<and> (\<not> isl (resource_stage s ctx cfg) \<longrightarrow>
        OtlptraceNew ctx
          (NewClient [WithInsecure, WithEndpoint (OtelEndpoint cfg), WithDialOption WithBlock])
          \<in> set (calls_made (InitProvider s ctx cfg g)))
   \<and> (\<forall>p. ret_provider (InitProvider s ctx cfg g) = Some p \<longrightarrow>
        (\<exists>res ex.
           otlptrace_New s ctx
             (NewClient [WithInsecure, WithEndpoint (OtelEndpoint cfg), WithDialOption WithBlock])
             = Inr ex
           \<and> tracerProvider p =
               Some (NewTracerProvider
                       [WithSampler (Sampler cfg), WithResource res,
                        WithSpanProcessor (NewBatchSpanProcessor ex)])))"
  by (cases "resource_stage s ctx cfg"; cases "exporter_stage s ctx cfg")
     (auto simp add: InitProvider_eqs exporter_stage_def)

theorem InitProvider_insecure_client_witness:
  "\<not> isl (resource_stage unreachable_sdk Background example_config)
   \<and> OtlptraceNew Background
       (NewClient [WithInsecure, WithEndpoint ''otel-collector:4317'', WithDialOption WithBlock])
       \<in> set (calls_made (InitProvider unreachable_sdk Background example_config no_globals))
   \<and> ret_provider (InitProvider echo_sdk Background example_config no_globals) =
       Some \<lparr> tracerProvider = Some example_tracer_provider, config = example_config \<rparr>"
proof -
  have r: "\<not> isl (resource_stage unreachable_sdk Background example_config)"
    by (simp add: unreachable_stages)
  have e: "OtelEndpoint example_config = ''otel-collector:4317''"
    by (simp add: example_config_def)
  from InitProvider_insecure_client [of unreachable_sdk Background example_config no_globals] r e
  show ?thesis using example_provider by simp
qed

section \<open>GetTracer\<close>

text \<open>
  C8, as stated, fails in its second half: on an SDK whose tracer provider hands out a
  tracer that records nothing once it is shut down, two calls of \<open>GetTracer\<close> with the
  same name on the provider \<open>InitProvider\<close> returned, one before and one after
  \<open>Shutdown\<close>, return a recording tracer and one that records nothing.
\<close>

theorem GetTracer_after_Shutdown_counterexample:
  "ret_provider (InitProvider echo_sdk Background example_config no_globals) =
     Some \<lparr> tracerProvider = Some example_tracer_provider, config = example_config \<rparr>
   \<and> GetTracer stateful_tracing
       (Some \<lparr> tracerProvider = Some example_tracer_provider, config = example_config \<rparr>)
       ''manual-example'' []
       = Inr (RecordingTracer example_tracer_provider ''manual-example'', [])
   \<and> Shutdown stateful_tracing
       (Some \<lparr> tracerProvider = Some example_tracer_provider, config = example_config \<rparr>)
       Background []
       = Inr (None, [example_tracer_provider])
   \<and> GetTracer stateful_tracing
       (Some \<lparr> tracerProvider = Some example_tracer_provider, config = example_config \<rparr>)
       ''manual-example'' [example_tracer_provider]
       = Inr (NoopTracer, [example_tracer_provider])
   \<and> records_spans (RecordingTracer example_tracer_provider ''manual-example'')
   \<and> \<not> records_spans (NoopTracer :: (resource_option list, client) sdk_tracer)"
  by (simp add: example_provider stateful_tracing_def)

text \<open>
  C8, amended. On a provider returned by \<open>InitProvider\<close>, \<open>GetTracer\<close> neither panics nor
  has an error outcome, for any name and in any state of the SDK: it returns what the
  \<open>Tracer\<close> method of the provider's tracer provider returns for that name in that
  state, and the state that method leaves. \<open>GetTracer\<close> adds nothing of its own, so
  how the tracers of two calls relate is the SDK's matter.
\<close>

theorem GetTracer_delegates:
  assumes "ret_provider (InitProvider s ctx cfg g) = Some p"
  shows "\<exists>tp. tracerProvider p = Some tp
           \<and> globalTracerProvider (globals_after (InitProvider s ctx cfg g)) = Some tp
           \<and> GetTracer ts (Some p) name st = Inr (TracerProvider_Tracer ts tp name st)"
  using assms
  by (cases "resource_stage s ctx cfg"; cases "exporter_stage s ctx cfg")
     (auto simp add: InitProvider_eqs)

theorem GetTracer_delegates_witness:
  "ret_provider (InitProvider echo_sdk Background example_config no_globals) =
     Some \<lparr> tracerProvider = Some example_tracer_provider, config = example_config \<rparr>
   \<and> GetTracer stateful_tracing
       (Some \<lparr> tracerProvider = Some example_tracer_provider, config = example_config \<rparr>)
       ''manual-example'' []
       = Inr (RecordingTracer example_tracer_provider ''manual-example'', [])"
  using GetTracer_delegates
          [OF example_provider, of stateful_tracing "''manual-example''" "[]"]
        example_provider
  by (simp add: stateful_tracing_def)

section \<open>The middleware shim holds a tracer\<close>

text \<open>
  C2, as stated, fails: the object \<open>NewTracerMiddleware\<close> yields for the provider of the
  example configuration holds a tracer and nothing else, its type declares no method
  that could be put around a request handler, and building it left the SDK state as it
  was: no span has been started, named or ended.
\<close>

theorem middleware_shim_counterexample:
  "NewTracerMiddleware stateful_tracing
     (Some \<lparr> tracerProvider = Some example_tracer_provider, config = example_config \<rparr>)
     ''api-handlers'' []
     = Inr (\<lparr> Tracer = RecordingTracer example_tracer_provider ''api-handlers'' \<rparr>, [])
   \<and> method_set TracerMiddleware_ptr = []
   \<and> ''Handle'' \<notin> set (method_set TracerMiddleware_ptr)"
  by (simp add: NewTracerMiddleware_def stateful_tracing_def)

text \<open>
  C2, amended. From a provider that holds a tracer provider, \<open>NewTracerMiddleware\<close>
  yields an object whose one field is the tracer \<open>GetTracer\<close> returns for the name,
  and leaves the SDK in the state \<open>GetTracer\<close> leaves it in; from a nil provider it
  panics. The object's type declares no method: starting a span for a request, naming
  it, attaching attributes and ending it on every exit path is done by none of the
  package's code.
\<close>

theorem NewTracerMiddleware_holds_tracer:
  assumes "tracerProvider p = Some tp"
  shows "GetTracer ts (Some p) name st = Inr (TracerProvider_Tracer ts tp name st)
         \<and> NewTracerMiddleware ts (Some p) name st =
             Inr (\<lparr> Tracer = fst (TracerProvider_Tracer ts tp name st) \<rparr>,
                  snd (TracerProvider_Tracer ts tp name st))
         \<and> NewTracerMiddleware ts None name st = Inl NilPointerDereference
         \<and> method_set TracerMiddleware_ptr = []"
  using assms by (simp add: NewTracerMiddleware_def split: prod.splits)

theorem NewTracerMiddleware_holds_tracer_witness:
  "tracerProvider \<lparr> tracerProvider = Some example_tracer_provider, config = example_config \<rparr>
     = Some example_tracer_provider
   \<and> NewTracerMiddleware stateful_tracing
       (Some \<lparr> tracerProvider = Some example_tracer_provider, config = example_config \<rparr>)
       ''api-handlers'' [example_tracer_provider]
       = Inr (\<lparr> Tracer = NoopTracer \<rparr>, [example_tracer_provider])"
proof -
  have t: "tracerProvider
             \<lparr> tracerProvider = Some example_tracer_provider, config = example_config \<rparr>
           = Some example_tracer_provider"
    by simp
  from NewTracerMiddleware_holds_tracer
         [OF t, of stateful_tracing "''api-handlers''" "[example_tracer_provider]"] t
  show ?thesis by (simp add: stateful_tracing_def)
qed

end
